theory Spec2Isabelle
  imports Main "HOL-Library.Word"
begin

unbundle bit_operations_syntax

section \<open>Common conventions\<close>

text \<open>
  The functions of \<^verbatim>\<open>vdev_file.c\<close> and \<^verbatim>\<open>zvolIO.cpp\<close> are embedded as HOL functions
  that return the value the C function returns (or the objects it mutated) together with
  the list of calls it made to code outside the function, in program order. A kernel
  panic (a failed \<^verbatim>\<open>VERIFY\<close>, a failed \<^verbatim>\<open>ASSERT\<close> in a debug build, a NULL pointer
  dereference) is the outcome \<open>Panics\<close>; the call list then holds the calls made before it.
\<close>

datatype 'a outcome = Returns 'a | Panics

section \<open>The zvol block device: \<^verbatim>\<open>zvolIO.cpp\<close>\<close>

text \<open>\<^verbatim>\<open>#define ZVOL_BSIZE DEV_BSIZE\<close>, 512 bytes; the operands are \<^verbatim>\<open>UInt64\<close>.\<close>

definition ZVOL_BSIZE :: "64 word" where
  "ZVOL_BSIZE = 512"

text \<open>The \<^verbatim>\<open>IOReturn\<close> codes and buffer directions that \<^verbatim>\<open>doAsyncReadWrite\<close> uses.\<close>

datatype IOReturn = kIOReturnSuccess | kIOReturnNotAttached | kIOReturnBadArgument

datatype IODirection = kIODirectionNone | kIODirectionIn | kIODirectionOut | kIODirectionInOut

text \<open>
  The fields of \<^verbatim>\<open>zvol_state_t\<close> read by \<^verbatim>\<open>doAsyncReadWrite\<close>: the dnode pointer
  (\<open>None\<close> is NULL) and the volume size in bytes.
\<close>

record zvol_state =
  zv_dn :: "nat option"
  zv_volsize :: "64 word"

text \<open>
  The device object: \<^verbatim>\<open>isInactive()\<close> of the I/O Kit base class, and the \<^verbatim>\<open>zv\<close> member
  (\<open>None\<close> is NULL; the method dereferences it without a check).
\<close>

record zvol_device =
  isInactive :: bool
  zv :: "zvol_state option"

text \<open>
  \<^verbatim>\<open>zvol_os_read_zv\<close> and \<^verbatim>\<open>zvol_os_write_zv\<close> are defined outside this file; their
  return value for a given byte offset and count is a parameter.
\<close>

record zvol_os =
  zvol_os_read_zv :: "64 word \<Rightarrow> 64 word \<Rightarrow> int"
  zvol_os_write_zv :: "64 word \<Rightarrow> 64 word \<Rightarrow> int"

text \<open>
  The calls \<^verbatim>\<open>doAsyncReadWrite\<close> makes: a volume read or write (offset, count) and the
  completion action (status, actual byte count).
\<close>

datatype zvol_call =
    Zvol_os_read_zv "64 word" "64 word"
  | Zvol_os_write_zv "64 word" "64 word"
  | Completion_action IOReturn "64 word"

definition doAsyncReadWrite ::
  "zvol_os \<Rightarrow> zvol_device \<Rightarrow> IODirection \<Rightarrow> 64 word \<Rightarrow> 64 word
     \<Rightarrow> IOReturn outcome \<times> zvol_call list" where
  "doAsyncReadWrite os dev direction block nblks =
     (if isInactive dev then (Returns kIOReturnNotAttached, [])
      else case zv dev of
        None \<Rightarrow> (Panics, [])
      | Some z \<Rightarrow>
          if zv_dn z = None then (Returns kIOReturnNotAttached, [])
          else if block * ZVOL_BSIZE \<ge> zv_volsize z then (Returns kIOReturnBadArgument, [])
          else if (block + nblks) * ZVOL_BSIZE > zv_volsize z
            then (Returns kIOReturnBadArgument, [])
          else if direction \<noteq> kIODirectionIn \<and> direction \<noteq> kIODirectionOut
            then (Returns kIOReturnBadArgument, [])
          else
            let actualByteCount = nblks * ZVOL_BSIZE in
            if direction = kIODirectionIn then
              (Returns kIOReturnSuccess,
               [Zvol_os_read_zv (block * ZVOL_BSIZE) actualByteCount,
                Completion_action kIOReturnSuccess
                  (if zvol_os_read_zv os (block * ZVOL_BSIZE) actualByteCount \<noteq> 0
                   then 0 else actualByteCount)])
            else
              (Returns kIOReturnSuccess,
               [Zvol_os_write_zv (block * ZVOL_BSIZE) actualByteCount,
                Completion_action kIOReturnSuccess
                  (if zvol_os_write_zv os (block * ZVOL_BSIZE) actualByteCount \<noteq> 0
                   then 0 else actualByteCount)]))"

text \<open>The validation checks of \<^verbatim>\<open>doAsyncReadWrite\<close>, in the order the method makes them.\<close>

definition passes_validation :: "zvol_device \<Rightarrow> IODirection \<Rightarrow> 64 word \<Rightarrow> 64 word \<Rightarrow> bool" where
  "passes_validation dev direction block nblks =
     (\<not> isInactive dev \<and>
      (case zv dev of
         None \<Rightarrow> False
       | Some z \<Rightarrow> zv_dn z \<noteq> None
           \<and> block * ZVOL_BSIZE < zv_volsize z
           \<and> (block + nblks) * ZVOL_BSIZE \<le> zv_volsize z
           \<and> (direction = kIODirectionIn \<or> direction = kIODirectionOut)))"

text \<open>How often the completion action occurs in a call list.\<close>

fun is_completion :: "zvol_call \<Rightarrow> bool" where
  "is_completion (Completion_action _ _) = True"
| "is_completion _ = False"

fun is_volume_io :: "zvol_call \<Rightarrow> bool" where
  "is_volume_io (Completion_action _ _) = False"
| "is_volume_io _ = True"

text \<open>
  The byte range of a request as numbers, without the 64-bit wrap-around: it exceeds the
  volume when the start offset is at or beyond the size or the end goes past it.
\<close>

definition range_exceeds :: "zvol_state \<Rightarrow> 64 word \<Rightarrow> 64 word \<Rightarrow> bool" where
  "range_exceeds z block nblks =
     (unat block * 512 \<ge> unat (zv_volsize z)
      \<or> (unat block + unat nblks) * 512 > unat (zv_volsize z))"

text \<open>Concrete devices and collaborators for the examples.\<close>

definition os_ok :: zvol_os where
  "os_ok = \<lparr>zvol_os_read_zv = (\<lambda>_ _. 0), zvol_os_write_zv = (\<lambda>_ _. 0)\<rparr>"

definition os_failing :: zvol_os where
  "os_failing = \<lparr>zvol_os_read_zv = (\<lambda>_ _. 5), zvol_os_write_zv = (\<lambda>_ _. 5)\<rparr>"

definition zv_1k :: zvol_state where
  "zv_1k = \<lparr>zv_dn = Some 1, zv_volsize = 1024\<rparr>"

definition dev_1k :: zvol_device where
  "dev_1k = \<lparr>isInactive = False, zv = Some zv_1k\<rparr>"

definition dev_1k_inactive :: zvol_device where
  "dev_1k_inactive = \<lparr>isInactive = True, zv = Some zv_1k\<rparr>"

section \<open>The file-backed virtual device: \<^verbatim>\<open>vdev_file.c\<close>\<close>

subsection \<open>Constants declared outside the file\<close>

text \<open>
  The error numbers are those of the macOS \<^verbatim>\<open>sys/errno.h\<close>; \<^verbatim>\<open>SET_ERROR\<close> records the
  error for tracing and yields it unchanged. The properties below name the constants and
  do not depend on their values.
\<close>

definition EIO :: int where "EIO = 5"
definition ENXIO :: int where "ENXIO = 6"
definition ENODEV :: int where "ENODEV = 19"
definition EINVAL :: int where "EINVAL = 22"
definition ENOSPC :: int where "ENOSPC = 28"
definition ENOTSUP :: int where "ENOTSUP = 45"

definition SET_ERROR :: "int \<Rightarrow> int" where
  "SET_ERROR err = err"

text \<open>
  Modelled from the spec: \<^verbatim>\<open>SPA_MINBLOCKSHIFT\<close> is declared in \<^verbatim>\<open>sys/spa.h\<close>, which is
  not among the sources; the spec calls it the fixed constant representing 512-byte
  sectors, so the shift is 9.
\<close>

definition SPA_MINBLOCKSHIFT :: "64 word" where
  "SPA_MINBLOCKSHIFT = 9"

text \<open>
  The pool open-mode flags (\<^verbatim>\<open>sys/spa.h\<close>) and the host open flags (\<^verbatim>\<open>fcntl.h\<close>),
  with the values of those headers; \<^verbatim>\<open>O_LARGEFILE\<close> is defined as 0 in
  \<^verbatim>\<open>spl/sys/fcntl.h\<close>. No property below depends on the values.
\<close>

definition SPA_MODE_READ :: "32 word" where "SPA_MODE_READ = 1"
definition SPA_MODE_WRITE :: "32 word" where "SPA_MODE_WRITE = 2"
definition O_RDONLY :: "32 word" where "O_RDONLY = 0"
definition O_WRONLY :: "32 word" where "O_WRONLY = 1"
definition O_RDWR :: "32 word" where "O_RDWR = 2"
definition O_LARGEFILE :: "32 word" where "O_LARGEFILE = 0"
definition O_SYNC :: "32 word" where "O_SYNC = 0x80"
definition O_DSYNC :: "32 word" where "O_DSYNC = 0x400000"

text \<open>The flush sub-command of an ioctl request (\<^verbatim>\<open>DKIOC | 34\<close> of \<^verbatim>\<open>sys/dkio.h\<close>).\<close>

definition DKIOCFLUSHWRITECACHE :: int where
  "DKIOCFLUSHWRITECACHE = 1058"

subsection \<open>Data\<close>

text \<open>A host file handle (\<^verbatim>\<open>zfs_file_t *\<close>); \<open>None\<close> is NULL where a handle is optional.\<close>

type_synonym zfs_file = nat

text \<open>\<^verbatim>\<open>vdev_file_t\<close>: the per-device handle struct, holding the open host file.\<close>

record vdev_file_t =
  vf_file :: "zfs_file option"

datatype vdev_aux = VDEV_AUX_NONE | VDEV_AUX_OPEN_FAILED | VDEV_AUX_BAD_LABEL

text \<open>
  The fields of \<^verbatim>\<open>vdev_t\<close> that \<^verbatim>\<open>vdev_file.c\<close> reads or writes. \<open>vdev_tsd\<close> is the pointer
  to the handle struct (\<open>None\<close> is NULL); only the device points to that struct, so it is
  held by value. \<open>vs_aux\<close> is \<^verbatim>\<open>vdev_stat.vs_aux\<close>; \<open>vdev_spa_mode\<close> is
  \<^verbatim>\<open>spa_mode(vd->vdev_spa)\<close>; \<open>vdev_readable\<close> is what \<^verbatim>\<open>vdev_readable(vd)\<close> returns.
\<close>

record vdev_t =
  vdev_path :: "string option"
  vdev_tsd :: "vdev_file_t option"
  vdev_reopening :: bool
  vdev_delayed_close :: bool
  vdev_nonrot :: bool
  vdev_has_trim :: bool
  vdev_has_securetrim :: bool
  vs_aux :: vdev_aux
  vdev_spa_mode :: "32 word"
  vdev_readable :: bool

datatype zio_type =
    ZIO_TYPE_NULL | ZIO_TYPE_READ | ZIO_TYPE_WRITE | ZIO_TYPE_FREE
  | ZIO_TYPE_CLAIM | ZIO_TYPE_IOCTL | ZIO_TYPE_TRIM

text \<open>The fields of \<^verbatim>\<open>zio_t\<close> that the I/O path reads or writes.\<close>

record zio_t =
  io_vd :: vdev_t
  io_type :: zio_type
  io_cmd :: int
  io_offset :: "64 word"
  io_size :: "64 word"
  io_error :: int
  io_target_timestamp :: "64 word"

text \<open>The four output parameters of \<^verbatim>\<open>vdev_file_open\<close>.\<close>

record open_out =
  psize :: "64 word"
  max_psize :: "64 word"
  ashift :: "64 word"
  physical_ashift :: "64 word"

subsection \<open>The build and the host\<close>

text \<open>
  \<open>KERNEL\<close>: the file is compiled with \<^verbatim>\<open>_KERNEL\<close> defined. \<open>ZFS_DEBUG\<close>: the \<^verbatim>\<open>ASSERT\<close>
  macros are compiled in; they are checked in debug builds only, whereas \<^verbatim>\<open>VERIFY\<close> is
  checked in every build.
\<close>

record build =
  KERNEL :: bool
  ZFS_DEBUG :: bool

text \<open>
  What the collaborators return. \<open>zfs_file_open\<close>: error and handle for a path and open
  flags. \<open>zfs_file_getattr\<close>: error and \<^verbatim>\<open>zfa_size\<close>, for the n-th attribute query of one
  open call. \<open>zfs_file_pread\<close>, \<open>zfs_file_pwrite\<close>: error and residual count for a handle,
  size and offset. \<open>zfs_file_fsync\<close>, \<open>zfs_file_fallocate\<close>: the error.
  \<open>zio_handle_io_delay\<close>: the target timestamp. \<open>taskq_dispatch\<close>: the task id, 0 when
  the dispatch failed.
\<close>

record host =
  zfs_file_open :: "string \<Rightarrow> 32 word \<Rightarrow> int \<times> zfs_file"
  zfs_file_getattr :: "nat \<Rightarrow> zfs_file option \<Rightarrow> int \<times> 64 word"
  zfs_file_pread :: "zfs_file option \<Rightarrow> 64 word \<Rightarrow> 64 word \<Rightarrow> int \<times> 64 word"
  zfs_file_pwrite :: "zfs_file option \<Rightarrow> 64 word \<Rightarrow> 64 word \<Rightarrow> int \<times> 64 word"
  zfs_file_fsync :: "zfs_file option \<Rightarrow> 32 word \<Rightarrow> int"
  zfs_file_fallocate :: "zfs_file option \<Rightarrow> int \<Rightarrow> 64 word \<Rightarrow> 64 word \<Rightarrow> int"
  zio_handle_io_delay :: "zio_t \<Rightarrow> 64 word"
  taskq_dispatch :: "zio_t \<Rightarrow> nat"

text \<open>
  The calls made by the functions of the file. \<open>Taskq_dispatch\<close> is the submission of
  \<^verbatim>\<open>vdev_file_io_strategy\<close> for the request to \<^verbatim>\<open>vdev_file_taskq\<close>.
\<close>

datatype call =
    Kmem_zalloc
  | Kmem_free
  | Zfs_file_open string "32 word"
  | Zfs_file_getattr "zfs_file option"
  | Zfs_file_close zfs_file
  | Abd_borrow_buf "64 word"
  | Abd_borrow_buf_copy "64 word"
  | Abd_return_buf "64 word"
  | Abd_return_buf_copy "64 word"
  | Zfs_file_pread "zfs_file option" "64 word" "64 word"
  | Zfs_file_pwrite "zfs_file option" "64 word" "64 word"
  | Zfs_file_fsync "zfs_file option" "32 word"
  | Zfs_file_fallocate "zfs_file option" int "64 word" "64 word"
  | Zio_interrupt
  | Zio_execute
  | Zio_delay_interrupt
  | Zio_handle_io_delay
  | Taskq_dispatch

subsection \<open>Open and close\<close>

definition vdev_file_open_mode :: "32 word \<Rightarrow> 32 word" where
  "vdev_file_open_mode spa_mode =
     (let mode =
        (if spa_mode AND SPA_MODE_READ \<noteq> 0 \<and> spa_mode AND SPA_MODE_WRITE \<noteq> 0 then O_RDWR
         else if spa_mode AND SPA_MODE_READ \<noteq> 0 then O_RDONLY
         else if spa_mode AND SPA_MODE_WRITE \<noteq> 0 then O_WRONLY
         else 0)
      in mode OR O_LARGEFILE)"

text \<open>\<^verbatim>\<open>path[0]\<close> of a C string: the first byte, the terminator when the string is empty.\<close>

definition first_byte :: "string \<Rightarrow> char" where
  "first_byte p = (case p of [] \<Rightarrow> CHR 0x00 | c # _ \<Rightarrow> c)"

text \<open>
  The part of \<^verbatim>\<open>vdev_file_open\<close> from the label \<^verbatim>\<open>skip_open\<close> on: \<open>n\<close> counts the
  attribute queries already made, \<open>cs\<close> holds the calls already made.
\<close>

definition skip_open ::
  "host \<Rightarrow> nat \<Rightarrow> vdev_t \<Rightarrow> vdev_file_t \<Rightarrow> open_out \<Rightarrow> call list
     \<Rightarrow> (int \<times> vdev_t \<times> open_out) outcome \<times> call list" where
  "skip_open h n vd vf out cs =
     (let (error, zfa_size) = zfs_file_getattr h n (vf_file vf);
          cs' = cs @ [Zfs_file_getattr (vf_file vf)]
      in if error \<noteq> 0
         then (Returns (error, vd\<lparr>vs_aux := VDEV_AUX_OPEN_FAILED\<rparr>, out), cs')
         else (Returns (0, vd,
                 out\<lparr>psize := zfa_size, max_psize := zfa_size,
                     ashift := SPA_MINBLOCKSHIFT, physical_ashift := SPA_MINBLOCKSHIFT\<rparr>), cs'))"

text \<open>
  \<^verbatim>\<open>vdev_file_open\<close>. The reopen shortcut exists in kernel builds only
  (\<^verbatim>\<open>#ifdef _KERNEL\<close>); there \<^verbatim>\<open>ASSERT(vd->vdev_reopening)\<close> guards it. The second
  assertion, on the path, repeats the check just passed and cannot fail.
  \<^verbatim>\<open>kmem_zalloc\<close> with \<^verbatim>\<open>KM_SLEEP\<close> always returns a zeroed struct. The outputs are
  written on success only.
\<close>

definition vdev_file_open ::
  "build \<Rightarrow> host \<Rightarrow> vdev_t \<Rightarrow> open_out
     \<Rightarrow> (int \<times> vdev_t \<times> open_out) outcome \<times> call list" where
  "vdev_file_open b h vd0 out =
     (let vd = vd0\<lparr>vdev_nonrot := True, vdev_has_trim := True, vdev_has_securetrim := False\<rparr>;
          invalid = (Returns (SET_ERROR EINVAL, vd\<lparr>vs_aux := VDEV_AUX_BAD_LABEL\<rparr>, out), [])
      in case vdev_path vd of
           None \<Rightarrow> invalid
         | Some path \<Rightarrow>
             if first_byte path \<noteq> CHR ''/'' then invalid
             else (case (if KERNEL b then vdev_tsd vd else None) of
               Some vf \<Rightarrow>
                 if ZFS_DEBUG b \<and> \<not> vdev_reopening vd then (Panics, [])
                 else skip_open h 0 vd vf out []
             | None \<Rightarrow>
                 let vf = \<lparr>vf_file = None\<rparr>;
                     vd1 = vd\<lparr>vdev_tsd := Some vf\<rparr>;
                     mode = vdev_file_open_mode (vdev_spa_mode vd1);
                     (error, fp) = zfs_file_open h path mode;
                     cs = [Kmem_zalloc, Zfs_file_open path mode]
                 in if error \<noteq> 0
                    then (Returns (error, vd1\<lparr>vs_aux := VDEV_AUX_OPEN_FAILED\<rparr>, out), cs)
                    else
                      let vf1 = vf\<lparr>vf_file := Some fp\<rparr>;
                          vd2 = vd1\<lparr>vdev_tsd := Some vf1\<rparr>
                      in if fst (zfs_file_getattr h 0 (Some fp)) \<noteq> 0
                         then (Returns (SET_ERROR ENODEV, vd2, out),
                               cs @ [Zfs_file_getattr (Some fp)])
                         else skip_open h 1 vd2 vf1 out (cs @ [Zfs_file_getattr (Some fp)])))"

definition vdev_file_close :: "vdev_t \<Rightarrow> vdev_t \<times> call list" where
  "vdev_file_close vd =
     (case vdev_tsd vd of
        None \<Rightarrow> (vd, [])
      | Some vf \<Rightarrow>
          if vdev_reopening vd then (vd, [])
          else (vd\<lparr>vdev_delayed_close := False, vdev_tsd := None\<rparr>,
                (case vf_file vf of None \<Rightarrow> [] | Some fp \<Rightarrow> [Zfs_file_close fp])
                  @ [Kmem_free]))"

subsection \<open>The I/O path\<close>

text \<open>
  The worker function. \<^verbatim>\<open>vf->vf_file\<close> is read after the buffer is borrowed; with no
  handle struct that read is a NULL dereference.
\<close>

definition vdev_file_io_strategy :: "host \<Rightarrow> zio_t \<Rightarrow> zio_t outcome \<times> call list" where
  "vdev_file_io_strategy h zio =
     (let off = io_offset zio;
          size' = io_size zio
      in case vdev_tsd (io_vd zio) of
           None \<Rightarrow>
             (Panics, [if io_type zio = ZIO_TYPE_READ
                       then Abd_borrow_buf size' else Abd_borrow_buf_copy size'])
         | Some vf \<Rightarrow>
             let (err, resid, cs) =
                   (if io_type zio = ZIO_TYPE_READ
                    then (fst (zfs_file_pread h (vf_file vf) size' off),
                          snd (zfs_file_pread h (vf_file vf) size' off),
                          [Abd_borrow_buf size', Zfs_file_pread (vf_file vf) size' off,
                           Abd_return_buf_copy size'])
                    else (fst (zfs_file_pwrite h (vf_file vf) size' off),
                          snd (zfs_file_pwrite h (vf_file vf) size' off),
                          [Abd_borrow_buf_copy size', Zfs_file_pwrite (vf_file vf) size' off,
                           Abd_return_buf size']));
                 zio1 = zio\<lparr>io_error := (if err \<noteq> 0 then EIO else 0)\<rparr>;
                 zio2 = (if io_error zio1 = 0 \<and> resid \<noteq> 0
                         then zio1\<lparr>io_error := SET_ERROR ENOSPC\<rparr> else zio1)
             in (Returns zio2, cs @ [Zio_delay_interrupt]))"

text \<open>
  \<^verbatim>\<open>vdev_file_io_start\<close>. Ioctl and trim requests complete in the caller with
  \<^verbatim>\<open>zio_execute\<close>; everything else is submitted to the task queue, and a failed
  submission fails the \<^verbatim>\<open>VERIFY3U\<close>. The two \<^verbatim>\<open>ASSERT\<close>s (nonzero trim length, read or
  write type) are checked in debug builds.
\<close>

definition vdev_file_io_start :: "build \<Rightarrow> host \<Rightarrow> zio_t \<Rightarrow> zio_t outcome \<times> call list" where
  "vdev_file_io_start b h zio =
     (let vd = io_vd zio in
      if io_type zio = ZIO_TYPE_IOCTL then
        (if \<not> vdev_readable vd
         then (Returns (zio\<lparr>io_error := SET_ERROR ENXIO\<rparr>), [Zio_interrupt])
         else if io_cmd zio = DKIOCFLUSHWRITECACHE then
           (case vdev_tsd vd of
              None \<Rightarrow> (Panics, [])
            | Some vf \<Rightarrow>
                (Returns (zio\<lparr>io_error := zfs_file_fsync h (vf_file vf) (O_SYNC OR O_DSYNC)\<rparr>),
                 [Zfs_file_fsync (vf_file vf) (O_SYNC OR O_DSYNC), Zio_execute]))
         else (Returns (zio\<lparr>io_error := SET_ERROR ENOTSUP\<rparr>), [Zio_execute]))
      else if io_type zio = ZIO_TYPE_TRIM then
        (if ZFS_DEBUG b \<and> io_size zio = 0 then (Panics, [])
         else case vdev_tsd vd of
             None \<Rightarrow> (Panics, [])
           | Some vf \<Rightarrow>
               (Returns (zio\<lparr>io_error :=
                   zfs_file_fallocate h (vf_file vf) 0 (io_offset zio) (io_size zio)\<rparr>),
                [Zfs_file_fallocate (vf_file vf) 0 (io_offset zio) (io_size zio),
                 Zio_execute]))
      else if ZFS_DEBUG b \<and> \<not> (io_type zio = ZIO_TYPE_READ \<or> io_type zio = ZIO_TYPE_WRITE)
        then (Panics, [])
      else
        let zio1 = zio\<lparr>io_target_timestamp := zio_handle_io_delay h zio\<rparr> in
        if taskq_dispatch h zio1 = 0
        then (Panics, [Zio_handle_io_delay, Taskq_dispatch])
        else (Returns zio1, [Zio_handle_io_delay, Taskq_dispatch]))"

subsection \<open>Concrete devices, hosts and requests for the examples\<close>

definition vd_open :: vdev_t where
  "vd_open = \<lparr>vdev_path = Some ''/tmp/disk0'', vdev_tsd = Some \<lparr>vf_file = Some 3\<rparr>,
     vdev_reopening = False, vdev_delayed_close = False, vdev_nonrot = True,
     vdev_has_trim = True, vdev_has_securetrim = False, vs_aux = VDEV_AUX_NONE,
     vdev_spa_mode = 3, vdev_readable = True\<rparr>"

definition vd_new :: vdev_t where
  "vd_new = vd_open\<lparr>vdev_tsd := None\<rparr>"

definition out0 :: open_out where
  "out0 = \<lparr>psize = 0, max_psize = 0, ashift = 0, physical_ashift = 0\<rparr>"

definition release_build :: build where
  "release_build = \<lparr>KERNEL = True, ZFS_DEBUG = False\<rparr>"

definition debug_build :: build where
  "debug_build = \<lparr>KERNEL = True, ZFS_DEBUG = True\<rparr>"

text \<open>
  A host on which every call succeeds in full. Every open returns the handle 3, whose
  file has 1 MiB; an attribute query on any other handle fails.
\<close>

definition host_ok :: host where
  "host_ok = \<lparr>zfs_file_open = (\<lambda>_ _. (0, 3)),
     zfs_file_getattr = (\<lambda>_ f. if f = Some 3 then (0, 1048576) else (9, 0)),
     zfs_file_pread = (\<lambda>_ _ _. (0, 0)),
     zfs_file_pwrite = (\<lambda>_ _ _. (0, 0)),
     zfs_file_fsync = (\<lambda>_ _. 0),
     zfs_file_fallocate = (\<lambda>_ _ _ _. 0),
     zio_handle_io_delay = (\<lambda>_. 0),
     taskq_dispatch = (\<lambda>_. 1)\<rparr>"

text \<open>A host whose positioned reads and writes succeed but leave 512 bytes untransferred.\<close>

definition host_short :: host where
  "host_short = host_ok\<lparr>zfs_file_pread := (\<lambda>_ _ _. (0, 512)),
     zfs_file_pwrite := (\<lambda>_ _ _. (0, 512))\<rparr>"

text \<open>A host whose positioned reads and writes and whose fsync fail.\<close>

definition host_failing :: host where
  "host_failing = host_ok\<lparr>zfs_file_pread := (\<lambda>_ len _. (13, len)),
     zfs_file_pwrite := (\<lambda>_ len _. (13, len)),
     zfs_file_fsync := (\<lambda>_ _. 9)\<rparr>"

definition zio_req :: "vdev_t \<Rightarrow> zio_type \<Rightarrow> int \<Rightarrow> 64 word \<Rightarrow> 64 word \<Rightarrow> zio_t" where
  "zio_req vd ty cmd off len =
     \<lparr>io_vd = vd, io_type = ty, io_cmd = cmd, io_offset = off, io_size = len,
      io_error = 0, io_target_timestamp = 0\<rparr>"

section \<open>Properties of \<^verbatim>\<open>doAsyncReadWrite\<close>\<close>

lemma doAsyncReadWrite_word_reject:
  assumes "zv dev = Some z"
    and "block * ZVOL_BSIZE \<ge> zv_volsize z \<or> (block + nblks) * ZVOL_BSIZE > zv_volsize z"
  shows "doAsyncReadWrite os dev direction block nblks =
           (Returns (if isInactive dev \<or> zv_dn z = None
                     then kIOReturnNotAttached else kIOReturnBadArgument), [])"
  using assms by (auto simp: doAsyncReadWrite_def)

lemma unat_times_bsize:
  assumes "unat x * 512 < 2 ^ 64"
  shows "unat (x * ZVOL_BSIZE) = unat x * 512"
  using assms by (simp add: ZVOL_BSIZE_def unat_word_ariths)

text \<open>
  C1, as stated: every request whose byte range exceeds the volume size is rejected with
  the bad-argument code before any volume call. It fails twice on a 1024-byte volume.
  On a device that has been terminated the request for block 8 is rejected with the
  not-attached code. On an active device the request for block \<open>2 ^ 55\<close> passes both
  range checks, because \<open>block * 512\<close> wraps to 0 in 64 bits, and is read at offset 0.
\<close>

theorem C1_counterexample:
  "(range_exceeds zv_1k 8 1 \<and>
    doAsyncReadWrite os_ok dev_1k_inactive kIODirectionIn 8 1
      = (Returns kIOReturnNotAttached, []))
   \<and> (range_exceeds zv_1k (2 ^ 55) 1 \<and>
    doAsyncReadWrite os_ok dev_1k kIODirectionIn (2 ^ 55) 1 =
      (Returns kIOReturnSuccess,
       [Zvol_os_read_zv 0 512, Completion_action kIOReturnSuccess 512]))"
  by (simp add: range_exceeds_def doAsyncReadWrite_def zv_1k_def dev_1k_def
      dev_1k_inactive_def os_ok_def ZVOL_BSIZE_def)

text \<open>
  C1, amended: a read/write request whose byte range exceeds the volume size, with
  \<open>(block + nblks) * 512\<close> inside the 64-bit range, is rejected before any volume
  read or write and before the completion action (the call list is empty; nothing is
  shortened). The status is the bad-argument code when the device is active and its volume
  has a dnode, and the not-attached code otherwise.
\<close>

theorem C1_out_of_range_rejected:
  assumes zv: "zv dev = Some z"
    and fits: "(unat block + unat nblks) * 512 < 2 ^ 64"
    and exceeds: "range_exceeds z block nblks"
  shows "doAsyncReadWrite os dev direction block nblks =
           (Returns (if isInactive dev \<or> zv_dn z = None
                     then kIOReturnNotAttached else kIOReturnBadArgument), [])"
proof -
  from fits have b: "unat block * 512 < 2 ^ 64" by simp
  from fits have s: "unat block + unat nblks < 2 ^ 64" by simp
  have sum: "unat (block + nblks) = unat block + unat nblks"
    using s by (simp add: unat_word_ariths)
  have start: "unat (block * ZVOL_BSIZE) = unat block * 512"
    using b by (rule unat_times_bsize)
  have fin: "unat ((block + nblks) * ZVOL_BSIZE) = (unat block + unat nblks) * 512"
    using fits sum unat_times_bsize [of "block + nblks"] by simp
  from exceeds have
    "block * ZVOL_BSIZE \<ge> zv_volsize z \<or> (block + nblks) * ZVOL_BSIZE > zv_volsize z"
    by (simp add: range_exceeds_def word_le_nat_alt word_less_nat_alt start fin)
  with zv show ?thesis by (rule doAsyncReadWrite_word_reject)
qed

theorem C1_out_of_range_rejected_witness:
  "zv dev_1k = Some zv_1k \<and> range_exceeds zv_1k 1 2
   \<and> doAsyncReadWrite os_ok dev_1k kIODirectionOut 1 2 = (Returns kIOReturnBadArgument, [])"
  using C1_out_of_range_rejected [of dev_1k zv_1k 1 2 os_ok kIODirectionOut]
  by (simp add: dev_1k_def zv_1k_def range_exceeds_def)

text \<open>
  C10: a request that passes the validation checks of \<^verbatim>\<open>doAsyncReadWrite\<close> makes one
  volume read or write, then invokes the completion action exactly once, with the success
  status, and the method returns success, whatever the volume call returned; a failed
  volume call shows only as an actual byte count of zero.
\<close>

theorem C10_completion_always_success:
  assumes "passes_validation dev direction block nblks"
  shows "fst (doAsyncReadWrite os dev direction block nblks) = Returns kIOReturnSuccess
    \<and> filter is_completion (snd (doAsyncReadWrite os dev direction block nblks)) =
        [Completion_action kIOReturnSuccess
          (if (if direction = kIODirectionIn
               then zvol_os_read_zv os (block * ZVOL_BSIZE) (nblks * ZVOL_BSIZE)
               else zvol_os_write_zv os (block * ZVOL_BSIZE) (nblks * ZVOL_BSIZE)) \<noteq> 0
           then 0 else nblks * ZVOL_BSIZE)]
    \<and> filter is_volume_io (snd (doAsyncReadWrite os dev direction block nblks)) =
        [if direction = kIODirectionIn
         then Zvol_os_read_zv (block * ZVOL_BSIZE) (nblks * ZVOL_BSIZE)
         else Zvol_os_write_zv (block * ZVOL_BSIZE) (nblks * ZVOL_BSIZE)]"
  using assms
  by (auto simp: passes_validation_def doAsyncReadWrite_def Let_def split: option.splits)

theorem C10_completion_always_success_witness:
  "passes_validation dev_1k kIODirectionOut 1 1
   \<and> doAsyncReadWrite os_failing dev_1k kIODirectionOut 1 1 =
       (Returns kIOReturnSuccess,
        [Zvol_os_write_zv 512 512, Completion_action kIOReturnSuccess 0])"
  using C10_completion_always_success [of dev_1k kIODirectionOut 1 1 os_failing]
  by (simp add: passes_validation_def doAsyncReadWrite_def dev_1k_def zv_1k_def
      os_failing_def ZVOL_BSIZE_def)


section \<open>Properties of \<^verbatim>\<open>vdev_file_io_strategy\<close>\<close>

text \<open>
  C2: for a request executed by the worker on an open device, with \<open>(err, resid)\<close> what
  the host positioned read (for a read request) or write (otherwise) returns: the
  request's error is \<open>EIO\<close> when \<open>err\<close> is non-zero, \<open>ENOSPC\<close> when \<open>err\<close> is zero and the
  residual is not, and zero otherwise; the last call of the worker is the completion
  signal \<^verbatim>\<open>zio_delay_interrupt\<close>.
\<close>

theorem C2_strategy_error_classes:
  assumes "vdev_tsd (io_vd zio) = Some vf"
    and "(if io_type zio = ZIO_TYPE_READ
          then zfs_file_pread h (vf_file vf) (io_size zio) (io_offset zio)
          else zfs_file_pwrite h (vf_file vf) (io_size zio) (io_offset zio)) = (err, resid)"
  shows "vdev_file_io_strategy h zio =
     (Returns (zio\<lparr>io_error :=
         (if err \<noteq> 0 then EIO else if resid \<noteq> 0 then ENOSPC else 0)\<rparr>),
      (if io_type zio = ZIO_TYPE_READ
       then [Abd_borrow_buf (io_size zio),
             Zfs_file_pread (vf_file vf) (io_size zio) (io_offset zio),
             Abd_return_buf_copy (io_size zio)]
       else [Abd_borrow_buf_copy (io_size zio),
             Zfs_file_pwrite (vf_file vf) (io_size zio) (io_offset zio),
             Abd_return_buf (io_size zio)])
      @ [Zio_delay_interrupt])"
proof (cases "io_type zio = ZIO_TYPE_READ")
  case True
  with assms show ?thesis
    by (simp add: vdev_file_io_strategy_def Let_def SET_ERROR_def EIO_def)
next
  case False
  with assms show ?thesis
    by (simp add: vdev_file_io_strategy_def Let_def SET_ERROR_def EIO_def)
qed

theorem C2_strategy_error_classes_witness:
  "fst (vdev_file_io_strategy host_failing (zio_req vd_open ZIO_TYPE_WRITE 0 0 4096)) =
     Returns ((zio_req vd_open ZIO_TYPE_WRITE 0 0 4096)\<lparr>io_error := EIO\<rparr>)
   \<and> fst (vdev_file_io_strategy host_short (zio_req vd_open ZIO_TYPE_WRITE 0 0 4096)) =
     Returns ((zio_req vd_open ZIO_TYPE_WRITE 0 0 4096)\<lparr>io_error := ENOSPC\<rparr>)
   \<and> vdev_file_io_strategy host_ok (zio_req vd_open ZIO_TYPE_READ 0 0 4096) =
     (Returns (zio_req vd_open ZIO_TYPE_READ 0 0 4096),
      [Abd_borrow_buf 4096, Zfs_file_pread (Some 3) 4096 0, Abd_return_buf_copy 4096,
       Zio_delay_interrupt])"
  using
    C2_strategy_error_classes [of "zio_req vd_open ZIO_TYPE_WRITE 0 0 4096"
      "\<lparr>vf_file = Some 3\<rparr>" host_failing 13 4096]
    C2_strategy_error_classes [of "zio_req vd_open ZIO_TYPE_WRITE 0 0 4096"
      "\<lparr>vf_file = Some 3\<rparr>" host_short 0 512]
    C2_strategy_error_classes [of "zio_req vd_open ZIO_TYPE_READ 0 0 4096"
      "\<lparr>vf_file = Some 3\<rparr>" host_ok 0 0]
  by (simp add: zio_req_def vd_open_def host_failing_def host_short_def host_ok_def)

text \<open>
  C3, as stated: a read that completes without host error but short is not promoted to an
  error. It fails: a 4096-byte read on which the host succeeds leaving 512 bytes
  untransferred ends with the request's error set to \<open>ENOSPC\<close>.
\<close>

theorem C3_counterexample:
  "zfs_file_pread host_short (Some 3) 4096 0 = (0, 512)
   \<and> vdev_file_io_strategy host_short (zio_req vd_open ZIO_TYPE_READ 0 0 4096) =
       (Returns ((zio_req vd_open ZIO_TYPE_READ 0 0 4096)\<lparr>io_error := ENOSPC\<rparr>),
        [Abd_borrow_buf 4096, Zfs_file_pread (Some 3) 4096 0, Abd_return_buf_copy 4096,
         Zio_delay_interrupt])"
  by (simp add: vdev_file_io_strategy_def zio_req_def vd_open_def host_short_def host_ok_def
      SET_ERROR_def)

text \<open>
  C3, amended: for every request, read or write alike, whose host positioned call
  completes with no host error and a non-zero residual, the worker sets the request's
  error to \<open>ENOSPC\<close>.
\<close>

theorem C3_short_transfer_is_ENOSPC:
  assumes "vdev_tsd (io_vd zio) = Some vf"
    and "(if io_type zio = ZIO_TYPE_READ
          then zfs_file_pread h (vf_file vf) (io_size zio) (io_offset zio)
          else zfs_file_pwrite h (vf_file vf) (io_size zio) (io_offset zio)) = (0, resid)"
    and "resid \<noteq> 0"
  shows "fst (vdev_file_io_strategy h zio) = Returns (zio\<lparr>io_error := ENOSPC\<rparr>)"
proof (cases "io_type zio = ZIO_TYPE_READ")
  case True
  with assms show ?thesis
    by (simp add: vdev_file_io_strategy_def Let_def SET_ERROR_def)
next
  case False
  with assms show ?thesis
    by (simp add: vdev_file_io_strategy_def Let_def SET_ERROR_def)
qed

theorem C3_short_transfer_is_ENOSPC_witness:
  "fst (vdev_file_io_strategy host_short (zio_req vd_open ZIO_TYPE_READ 0 8192 4096)) =
     Returns ((zio_req vd_open ZIO_TYPE_READ 0 8192 4096)\<lparr>io_error := ENOSPC\<rparr>)
   \<and> fst (vdev_file_io_strategy host_short (zio_req vd_open ZIO_TYPE_WRITE 0 8192 4096)) =
     Returns ((zio_req vd_open ZIO_TYPE_WRITE 0 8192 4096)\<lparr>io_error := ENOSPC\<rparr>)"
  using
    C3_short_transfer_is_ENOSPC [of "zio_req vd_open ZIO_TYPE_READ 0 8192 4096"
      "\<lparr>vf_file = Some 3\<rparr>" host_short 512]
    C3_short_transfer_is_ENOSPC [of "zio_req vd_open ZIO_TYPE_WRITE 0 8192 4096"
      "\<lparr>vf_file = Some 3\<rparr>" host_short 512]
  by (simp add: zio_req_def vd_open_def host_short_def host_ok_def)


section \<open>Properties of \<^verbatim>\<open>vdev_file_io_start\<close>\<close>

text \<open>
  C4, as stated: a request of any kind that arrives while the device is not readable is
  rejected with \<open>ENXIO\<close> and never handed to the dispatch queue. It fails for read, write
  and trim requests: the read and the write are submitted to the task queue with their
  error left at zero, and the trim is passed to the host fallocate call.
\<close>

theorem C4_counterexample:
  "\<not> vdev_readable (vd_open\<lparr>vdev_readable := False\<rparr>)
   \<and> vdev_file_io_start release_build host_ok
        (zio_req (vd_open\<lparr>vdev_readable := False\<rparr>) ZIO_TYPE_READ 0 0 4096) =
       (Returns (zio_req (vd_open\<lparr>vdev_readable := False\<rparr>) ZIO_TYPE_READ 0 0 4096),
        [Zio_handle_io_delay, Taskq_dispatch])
   \<and> vdev_file_io_start release_build host_ok
        (zio_req (vd_open\<lparr>vdev_readable := False\<rparr>) ZIO_TYPE_WRITE 0 0 4096) =
       (Returns (zio_req (vd_open\<lparr>vdev_readable := False\<rparr>) ZIO_TYPE_WRITE 0 0 4096),
        [Zio_handle_io_delay, Taskq_dispatch])
   \<and> vdev_file_io_start release_build host_ok
        (zio_req (vd_open\<lparr>vdev_readable := False\<rparr>) ZIO_TYPE_TRIM 0 0 4096) =
       (Returns (zio_req (vd_open\<lparr>vdev_readable := False\<rparr>) ZIO_TYPE_TRIM 0 0 4096),
        [Zfs_file_fallocate (Some 3) 0 0 4096, Zio_execute])"
  by (simp add: vdev_file_io_start_def zio_req_def vd_open_def host_ok_def release_build_def)

text \<open>
  C4, amended: every ioctl request that arrives while the device is not readable is
  rejected at once with \<open>ENXIO\<close>: the only call made is \<^verbatim>\<open>zio_interrupt\<close>, so there is no
  host call and no submission to the dispatch queue.
\<close>

theorem C4_unreadable_ioctl_rejected:
  assumes "io_type zio = ZIO_TYPE_IOCTL"
    and "\<not> vdev_readable (io_vd zio)"
  shows "vdev_file_io_start b h zio = (Returns (zio\<lparr>io_error := ENXIO\<rparr>), [Zio_interrupt])"
  using assms by (simp add: vdev_file_io_start_def SET_ERROR_def)

theorem C4_unreadable_ioctl_rejected_witness:
  "vdev_file_io_start release_build host_ok
     (zio_req (vd_open\<lparr>vdev_readable := False\<rparr>) ZIO_TYPE_IOCTL DKIOCFLUSHWRITECACHE 0 0) =
   (Returns ((zio_req (vd_open\<lparr>vdev_readable := False\<rparr>) ZIO_TYPE_IOCTL
               DKIOCFLUSHWRITECACHE 0 0)\<lparr>io_error := ENXIO\<rparr>),
    [Zio_interrupt])"
  using C4_unreadable_ioctl_rejected [of
      "zio_req (vd_open\<lparr>vdev_readable := False\<rparr>) ZIO_TYPE_IOCTL DKIOCFLUSHWRITECACHE 0 0"
      release_build host_ok]
  by (simp add: zio_req_def vd_open_def)

text \<open>
  C5: an ioctl request on a readable device completes synchronously, with
  \<^verbatim>\<open>zio_execute\<close> and without a submission to the task queue. With a sub-command other
  than the flush command its error is \<open>ENOTSUP\<close> and no host call is made; with the flush
  command, on an open device, its error is what the host fsync call returns.
\<close>

theorem C5_ioctl_flush_or_ENOTSUP:
  assumes "io_type zio = ZIO_TYPE_IOCTL"
    and "vdev_readable (io_vd zio)"
  shows "(io_cmd zio \<noteq> DKIOCFLUSHWRITECACHE \<longrightarrow>
            vdev_file_io_start b h zio =
              (Returns (zio\<lparr>io_error := ENOTSUP\<rparr>), [Zio_execute]))
       \<and> (io_cmd zio = DKIOCFLUSHWRITECACHE \<longrightarrow>
            (\<forall>vf. vdev_tsd (io_vd zio) = Some vf \<longrightarrow>
               vdev_file_io_start b h zio =
                 (Returns (zio\<lparr>io_error :=
                     zfs_file_fsync h (vf_file vf) (O_SYNC OR O_DSYNC)\<rparr>),
                  [Zfs_file_fsync (vf_file vf) (O_SYNC OR O_DSYNC), Zio_execute])))"
  using assms by (simp add: vdev_file_io_start_def SET_ERROR_def)

theorem C5_ioctl_flush_or_ENOTSUP_witness:
  "vdev_file_io_start release_build host_failing
     (zio_req vd_open ZIO_TYPE_IOCTL DKIOCFLUSHWRITECACHE 0 0) =
   (Returns ((zio_req vd_open ZIO_TYPE_IOCTL DKIOCFLUSHWRITECACHE 0 0)\<lparr>io_error := 9\<rparr>),
    [Zfs_file_fsync (Some 3) (O_SYNC OR O_DSYNC), Zio_execute])
   \<and> vdev_file_io_start release_build host_ok (zio_req vd_open ZIO_TYPE_IOCTL 7 0 0) =
   (Returns ((zio_req vd_open ZIO_TYPE_IOCTL 7 0 0)\<lparr>io_error := ENOTSUP\<rparr>), [Zio_execute])"
  using
    C5_ioctl_flush_or_ENOTSUP [of "zio_req vd_open ZIO_TYPE_IOCTL DKIOCFLUSHWRITECACHE 0 0"
      release_build host_failing]
    C5_ioctl_flush_or_ENOTSUP [of "zio_req vd_open ZIO_TYPE_IOCTL 7 0 0"
      release_build host_ok]
  by (simp add: zio_req_def vd_open_def host_failing_def host_ok_def DKIOCFLUSHWRITECACHE_def)

text \<open>
  C8, as stated: every zero-length trim is rejected before the host fallocate call. It
  fails in a build without assertions: the zero-length trim is passed to fallocate and
  completes with its result.
\<close>

theorem C8_counterexample:
  "vdev_file_io_start release_build host_ok (zio_req vd_open ZIO_TYPE_TRIM 0 4096 0) =
     (Returns (zio_req vd_open ZIO_TYPE_TRIM 0 4096 0),
      [Zfs_file_fallocate (Some 3) 0 4096 0, Zio_execute])"
  by (simp add: vdev_file_io_start_def zio_req_def vd_open_def host_ok_def release_build_def)

text \<open>
  C8, amended: in a build with assertions compiled in, every trim request with zero
  length stops at the failed assertion, a panic, before any call is made, so every trim
  request that reaches the host fallocate call has a nonzero length.
\<close>

theorem C8_zero_length_trim_asserted:
  assumes "ZFS_DEBUG b"
    and "io_type zio = ZIO_TYPE_TRIM"
  shows "(io_size zio = 0 \<longrightarrow> vdev_file_io_start b h zio = (Panics, []))
       \<and> (\<forall>fp mode off len.
             Zfs_file_fallocate fp mode off len \<in> set (snd (vdev_file_io_start b h zio))
               \<longrightarrow> len \<noteq> 0)"
  using assms by (auto simp: vdev_file_io_start_def split: option.splits)

theorem C8_zero_length_trim_asserted_witness:
  "vdev_file_io_start debug_build host_ok (zio_req vd_open ZIO_TYPE_TRIM 0 4096 0) =
     (Panics, [])
   \<and> vdev_file_io_start debug_build host_ok (zio_req vd_open ZIO_TYPE_TRIM 0 4096 512) =
     (Returns (zio_req vd_open ZIO_TYPE_TRIM 0 4096 512),
      [Zfs_file_fallocate (Some 3) 0 4096 512, Zio_execute])"
  using
    C8_zero_length_trim_asserted [of debug_build "zio_req vd_open ZIO_TYPE_TRIM 0 4096 0"
      host_ok]
    C8_zero_length_trim_asserted [of debug_build "zio_req vd_open ZIO_TYPE_TRIM 0 4096 512"
      host_ok]
  by (simp add: vdev_file_io_start_def zio_req_def vd_open_def host_ok_def debug_build_def)


section \<open>Properties of \<^verbatim>\<open>vdev_file_open\<close> and \<^verbatim>\<open>vdev_file_close\<close>\<close>

text \<open>
  C6: when the device path is missing or does not start with the root separator (the
  empty path included), open returns \<open>EINVAL\<close> and makes no call at all, so no host open
  call; the status detail becomes \<open>VDEV_AUX_BAD_LABEL\<close> and the outputs are untouched.
\<close>

theorem C6_bad_path_EINVAL:
  assumes "\<forall>rest. vdev_path vd \<noteq> Some (CHR ''/'' # rest)"
  shows "vdev_file_open b h vd out =
     (Returns (EINVAL,
        vd\<lparr>vdev_nonrot := True, vdev_has_trim := True, vdev_has_securetrim := False,
           vs_aux := VDEV_AUX_BAD_LABEL\<rparr>,
        out), [])"
proof (cases "vdev_path vd")
  case None
  then show ?thesis by (simp add: vdev_file_open_def SET_ERROR_def)
next
  case (Some p)
  with assms have "first_byte p \<noteq> CHR ''/''"
    by (cases p) (simp_all add: first_byte_def)
  with Some show ?thesis by (simp add: vdev_file_open_def SET_ERROR_def)
qed

theorem C6_bad_path_EINVAL_witness:
  "vdev_file_open release_build host_ok (vd_new\<lparr>vdev_path := None\<rparr>) out0 =
     (Returns (EINVAL, vd_new\<lparr>vdev_path := None, vs_aux := VDEV_AUX_BAD_LABEL\<rparr>, out0), [])
   \<and> vdev_file_open release_build host_ok (vd_new\<lparr>vdev_path := Some []\<rparr>) out0 =
     (Returns (EINVAL, vd_new\<lparr>vdev_path := Some [], vs_aux := VDEV_AUX_BAD_LABEL\<rparr>, out0), [])
   \<and> vdev_file_open release_build host_ok (vd_new\<lparr>vdev_path := Some ''tmp/disk0''\<rparr>) out0 =
     (Returns (EINVAL, vd_new\<lparr>vdev_path := Some ''tmp/disk0'', vs_aux := VDEV_AUX_BAD_LABEL\<rparr>,
        out0), [])"
  using
    C6_bad_path_EINVAL [of "vd_new\<lparr>vdev_path := None\<rparr>" release_build host_ok out0]
    C6_bad_path_EINVAL [of "vd_new\<lparr>vdev_path := Some []\<rparr>" release_build host_ok out0]
    C6_bad_path_EINVAL [of "vd_new\<lparr>vdev_path := Some ''tmp/disk0''\<rparr>" release_build host_ok out0]
  by (simp add: vd_new_def vd_open_def)

lemma skip_open_ok:
  assumes "zfs_file_getattr h n (vf_file vf) = (0, len)"
  shows "skip_open h n vd vf out cs =
     (Returns (0, vd, out\<lparr>psize := len, max_psize := len,
        ashift := SPA_MINBLOCKSHIFT, physical_ashift := SPA_MINBLOCKSHIFT\<rparr>),
      cs @ [Zfs_file_getattr (vf_file vf)])"
  using assms by (simp add: skip_open_def)

text \<open>
  C7: an open call with an absolute path succeeds when the host calls it makes succeed,
  and reports the size of the file it opened. On a first open (no handle struct yet, or
  a build without the reopen shortcut), where the host open call for that path and open
  mode returns the handle \<open>fp\<close>, the first attribute query on \<open>fp\<close> succeeds and the
  second reports the length \<open>len\<close>: open returns zero having made exactly these calls,
  leaves the device holding \<open>fp\<close>, and sets size and maximum size to \<open>len\<close> and both
  alignment shifts to \<open>SPA_MINBLOCKSHIFT\<close>. On a reopen (kernel build, the device holds
  the handle struct \<open>vf\<close> and is being reopened, as the code asserts), where the
  attribute query on the handle of \<open>vf\<close> reports \<open>len\<close>: open returns zero having made
  that one call, keeps the handle, and sets the same four outputs.
\<close>

theorem C7_open_reports_size_and_shift:
  assumes path: "vdev_path vd = Some (CHR ''/'' # rest)"
  shows "(\<forall>fp. (KERNEL b \<longrightarrow> vdev_tsd vd = None)
            \<and> zfs_file_open h (CHR ''/'' # rest)
                 (vdev_file_open_mode (vdev_spa_mode vd)) = (0, fp)
            \<and> fst (zfs_file_getattr h 0 (Some fp)) = 0
            \<and> zfs_file_getattr h 1 (Some fp) = (0, len) \<longrightarrow>
           vdev_file_open b h vd out =
             (Returns (0,
                vd\<lparr>vdev_nonrot := True, vdev_has_trim := True, vdev_has_securetrim := False,
                   vdev_tsd := Some \<lparr>vf_file = Some fp\<rparr>\<rparr>,
                out\<lparr>psize := len, max_psize := len,
                    ashift := SPA_MINBLOCKSHIFT, physical_ashift := SPA_MINBLOCKSHIFT\<rparr>),
              [Kmem_zalloc,
               Zfs_file_open (CHR ''/'' # rest) (vdev_file_open_mode (vdev_spa_mode vd)),
               Zfs_file_getattr (Some fp), Zfs_file_getattr (Some fp)]))
       \<and> (\<forall>vf. KERNEL b \<and> vdev_tsd vd = Some vf
            \<and> (ZFS_DEBUG b \<longrightarrow> vdev_reopening vd)
            \<and> zfs_file_getattr h 0 (vf_file vf) = (0, len) \<longrightarrow>
           vdev_file_open b h vd out =
             (Returns (0,
                vd\<lparr>vdev_nonrot := True, vdev_has_trim := True, vdev_has_securetrim := False\<rparr>,
                out\<lparr>psize := len, max_psize := len,
                    ashift := SPA_MINBLOCKSHIFT, physical_ashift := SPA_MINBLOCKSHIFT\<rparr>),
              [Zfs_file_getattr (vf_file vf)]))"
proof (intro conjI allI impI)
  fix fp
  assume first_open: "(KERNEL b \<longrightarrow> vdev_tsd vd = None)
    \<and> zfs_file_open h (CHR ''/'' # rest) (vdev_file_open_mode (vdev_spa_mode vd)) = (0, fp)
    \<and> fst (zfs_file_getattr h 0 (Some fp)) = 0
    \<and> zfs_file_getattr h 1 (Some fp) = (0, len)"
  then have fp: "zfs_file_open h (CHR ''/'' # rest)
        (vdev_file_open_mode (vdev_spa_mode vd)) = (0, fp)"
    and a0: "fst (zfs_file_getattr h 0 (Some fp)) = 0"
    and a1: "zfs_file_getattr h 1 (Some fp) = (0, len)"
    by simp_all
  have run: "skip_open h 1
          (vd\<lparr>vdev_nonrot := True, vdev_has_trim := True, vdev_has_securetrim := False,
              vdev_tsd := Some \<lparr>vf_file = Some fp\<rparr>\<rparr>)
          \<lparr>vf_file = Some fp\<rparr> out
          [Kmem_zalloc,
           Zfs_file_open (CHR ''/'' # rest) (vdev_file_open_mode (vdev_spa_mode vd)),
           Zfs_file_getattr (Some fp)] =
        (Returns (0,
           vd\<lparr>vdev_nonrot := True, vdev_has_trim := True, vdev_has_securetrim := False,
              vdev_tsd := Some \<lparr>vf_file = Some fp\<rparr>\<rparr>,
           out\<lparr>psize := len, max_psize := len,
              ashift := SPA_MINBLOCKSHIFT, physical_ashift := SPA_MINBLOCKSHIFT\<rparr>),
         [Kmem_zalloc,
          Zfs_file_open (CHR ''/'' # rest) (vdev_file_open_mode (vdev_spa_mode vd)),
          Zfs_file_getattr (Some fp), Zfs_file_getattr (Some fp)])"
    using a1 by (simp add: skip_open_ok)
  show "vdev_file_open b h vd out =
      (Returns (0,
         vd\<lparr>vdev_nonrot := True, vdev_has_trim := True, vdev_has_securetrim := False,
            vdev_tsd := Some \<lparr>vf_file = Some fp\<rparr>\<rparr>,
         out\<lparr>psize := len, max_psize := len,
             ashift := SPA_MINBLOCKSHIFT, physical_ashift := SPA_MINBLOCKSHIFT\<rparr>),
       [Kmem_zalloc,
        Zfs_file_open (CHR ''/'' # rest) (vdev_file_open_mode (vdev_spa_mode vd)),
        Zfs_file_getattr (Some fp), Zfs_file_getattr (Some fp)])"
  proof (cases "KERNEL b")
    case True
    with first_open have "vdev_tsd vd = None" by simp
    with True path fp a0 run show ?thesis
      by (simp add: vdev_file_open_def first_byte_def Let_def)
  next
    case False
    with path fp a0 run show ?thesis
      by (simp add: vdev_file_open_def first_byte_def Let_def)
  qed
next
  fix vf
  assume re: "KERNEL b \<and> vdev_tsd vd = Some vf
    \<and> (ZFS_DEBUG b \<longrightarrow> vdev_reopening vd)
    \<and> zfs_file_getattr h 0 (vf_file vf) = (0, len)"
  then have "zfs_file_getattr h 0 (vf_file vf) = (0, len)" by simp
  then have "skip_open h 0
        (vd\<lparr>vdev_nonrot := True, vdev_has_trim := True, vdev_has_securetrim := False\<rparr>)
        vf out [] =
      (Returns (0,
         vd\<lparr>vdev_nonrot := True, vdev_has_trim := True, vdev_has_securetrim := False\<rparr>,
         out\<lparr>psize := len, max_psize := len,
             ashift := SPA_MINBLOCKSHIFT, physical_ashift := SPA_MINBLOCKSHIFT\<rparr>),
       [Zfs_file_getattr (vf_file vf)])"
    by (simp add: skip_open_ok)
  with re path show "vdev_file_open b h vd out =
      (Returns (0,
         vd\<lparr>vdev_nonrot := True, vdev_has_trim := True, vdev_has_securetrim := False\<rparr>,
         out\<lparr>psize := len, max_psize := len,
             ashift := SPA_MINBLOCKSHIFT, physical_ashift := SPA_MINBLOCKSHIFT\<rparr>),
       [Zfs_file_getattr (vf_file vf)])"
    by (auto simp: vdev_file_open_def first_byte_def)
qed

theorem C7_open_reports_size_and_shift_witness:
  "zfs_file_open host_ok ''/tmp/disk0'' O_RDWR = (0, 3)
   \<and> zfs_file_getattr host_ok 1 (Some 3) = (0, 1048576)
   \<and> zfs_file_getattr host_ok 1 None = (9, 0)
   \<and> vdev_file_open release_build host_ok vd_new out0 =
     (Returns (0, vd_open,
        \<lparr>psize = 1048576, max_psize = 1048576,
         ashift = SPA_MINBLOCKSHIFT, physical_ashift = SPA_MINBLOCKSHIFT\<rparr>),
      [Kmem_zalloc, Zfs_file_open ''/tmp/disk0'' O_RDWR,
       Zfs_file_getattr (Some 3), Zfs_file_getattr (Some 3)])
   \<and> vdev_file_open debug_build host_ok (vd_open\<lparr>vdev_reopening := True\<rparr>) out0 =
     (Returns (0, vd_open\<lparr>vdev_reopening := True\<rparr>,
        \<lparr>psize = 1048576, max_psize = 1048576,
         ashift = SPA_MINBLOCKSHIFT, physical_ashift = SPA_MINBLOCKSHIFT\<rparr>),
      [Zfs_file_getattr (Some 3)])"
  using
    C7_open_reports_size_and_shift [of vd_new "''tmp/disk0''" release_build host_ok
      1048576 out0]
    C7_open_reports_size_and_shift [of "vd_open\<lparr>vdev_reopening := True\<rparr>" "''tmp/disk0''"
      debug_build host_ok 1048576 out0]
  by (simp add: vd_new_def vd_open_def host_ok_def release_build_def debug_build_def
      out0_def vdev_file_open_mode_def SPA_MODE_READ_def SPA_MODE_WRITE_def O_RDWR_def
      O_LARGEFILE_def)

text \<open>
  C9: a close on a device that is being reopened, or that has no handle struct, changes
  nothing and makes no call. Any other close closes the host file if there is one, frees
  the handle struct and clears the device's reference to it. So after a close during a
  reopen the device still holds its handle, and the close that follows once the reopen
  is over releases it.
\<close>

theorem C9_close_preserves_handle_during_reopen:
  "(vdev_reopening vd \<or> vdev_tsd vd = None \<longrightarrow> vdev_file_close vd = (vd, []))
   \<and> (\<forall>vf. \<not> vdev_reopening vd \<and> vdev_tsd vd = Some vf \<longrightarrow>
         vdev_file_close vd =
           (vd\<lparr>vdev_delayed_close := False, vdev_tsd := None\<rparr>,
            (case vf_file vf of None \<Rightarrow> [] | Some fp \<Rightarrow> [Zfs_file_close fp]) @ [Kmem_free]))
   \<and> (\<forall>vf. vdev_reopening vd \<and> vdev_tsd vd = Some vf \<longrightarrow>
         vdev_file_close ((fst (vdev_file_close vd))\<lparr>vdev_reopening := False\<rparr>) =
           (vd\<lparr>vdev_reopening := False, vdev_delayed_close := False, vdev_tsd := None\<rparr>,
            (case vf_file vf of None \<Rightarrow> [] | Some fp \<Rightarrow> [Zfs_file_close fp]) @ [Kmem_free]))"
proof (intro conjI allI impI)
  assume "vdev_reopening vd \<or> vdev_tsd vd = None"
  then show "vdev_file_close vd = (vd, [])"
    by (auto simp: vdev_file_close_def split: option.splits)
next
  fix vf
  assume "\<not> vdev_reopening vd \<and> vdev_tsd vd = Some vf"
  then show "vdev_file_close vd =
      (vd\<lparr>vdev_delayed_close := False, vdev_tsd := None\<rparr>,
       (case vf_file vf of None \<Rightarrow> [] | Some fp \<Rightarrow> [Zfs_file_close fp]) @ [Kmem_free])"
    by (simp add: vdev_file_close_def)
next
  fix vf
  assume mid: "vdev_reopening vd \<and> vdev_tsd vd = Some vf"
  then have first: "vdev_file_close vd = (vd, [])"
    by (simp add: vdev_file_close_def)
  have "vdev_file_close (vd\<lparr>vdev_reopening := False\<rparr>) =
      (vd\<lparr>vdev_reopening := False, vdev_delayed_close := False, vdev_tsd := None\<rparr>,
       (case vf_file vf of None \<Rightarrow> [] | Some fp \<Rightarrow> [Zfs_file_close fp]) @ [Kmem_free])"
    using mid by (simp add: vdev_file_close_def)
  with first show "vdev_file_close ((fst (vdev_file_close vd))\<lparr>vdev_reopening := False\<rparr>) =
      (vd\<lparr>vdev_reopening := False, vdev_delayed_close := False, vdev_tsd := None\<rparr>,
       (case vf_file vf of None \<Rightarrow> [] | Some fp \<Rightarrow> [Zfs_file_close fp]) @ [Kmem_free])"
    by simp
qed

theorem C9_close_preserves_handle_during_reopen_witness:
  "vdev_file_close (vd_open\<lparr>vdev_reopening := True\<rparr>) = (vd_open\<lparr>vdev_reopening := True\<rparr>, [])
   \<and> vdev_file_close vd_new = (vd_new, [])
   \<and> vdev_file_close vd_open = (vd_new, [Zfs_file_close 3, Kmem_free])
   \<and> vdev_file_close
       ((fst (vdev_file_close (vd_open\<lparr>vdev_reopening := True\<rparr>)))\<lparr>vdev_reopening := False\<rparr>) =
     (vd_new, [Zfs_file_close 3, Kmem_free])"
  using
    C9_close_preserves_handle_during_reopen [of "vd_open\<lparr>vdev_reopening := True\<rparr>"]
    C9_close_preserves_handle_during_reopen [of vd_new]
    C9_close_preserves_handle_during_reopen [of vd_open]
  by (simp add: vd_new_def vd_open_def)

end
